theory Spec2Isabelle
  imports
    Complex_Main
    "HOL-Library.AList"
    "HOL-Library.Char_ord"
    "HOL-Library.List_Lexorder"
    "HOL-Library.Multiset"
begin

section \<open>Python strings\<close>

text \<open>
  Strings are lists of 8-bit characters, read as ASCII text.  The classes of characters
  that the source tests through \<^verbatim>\<open>\d\<close>, \<^verbatim>\<open>str.isdigit\<close>,
  \<^verbatim>\<open>str.strip\<close> and \<^verbatim>\<open>str.lower\<close> are the ASCII ones.
\<close>

definition is_digit :: "char \<Rightarrow> bool" where
  "is_digit c = (c \<in> set ''0123456789'')"

definition is_space :: "char \<Rightarrow> bool" where
  "is_space c =
     (c \<in> set [CHR 0x09, CHR 0x0A, CHR 0x0B, CHR 0x0C, CHR 0x0D,
                CHR 0x1C, CHR 0x1D, CHR 0x1E, CHR 0x1F, CHR '' ''])"

text \<open>\<^verbatim>\<open>s.lstrip(c)\<close> and \<^verbatim>\<open>s.rstrip(c)\<close> for a set of characters given as a predicate.\<close>

definition lstrip_with :: "(char \<Rightarrow> bool) \<Rightarrow> string \<Rightarrow> string" where
  "lstrip_with p s = dropWhile p s"

definition rstrip_with :: "(char \<Rightarrow> bool) \<Rightarrow> string \<Rightarrow> string" where
  "rstrip_with p s = rev (dropWhile p (rev s))"

definition lstrip_chr :: "char \<Rightarrow> string \<Rightarrow> string" where
  "lstrip_chr c s = lstrip_with (\<lambda>x. x = c) s"

definition rstrip_chr :: "char \<Rightarrow> string \<Rightarrow> string" where
  "rstrip_chr c s = rstrip_with (\<lambda>x. x = c) s"

text \<open>\<^verbatim>\<open>s.strip()\<close>: white space removed at both ends.\<close>

definition strip :: "string \<Rightarrow> string" where
  "strip s = lstrip_with is_space (rstrip_with is_space s)"

text \<open>
  \<^verbatim>\<open>s.zfill(w)\<close>: zeros are put in front up to width \<open>w\<close>, after a leading sign
  when there is one; a string that is already long enough is returned as it is.
\<close>

definition zfill :: "nat \<Rightarrow> string \<Rightarrow> string" where
  "zfill w s =
     (if w \<le> length s then s
      else (case s of
              [] \<Rightarrow> replicate w (CHR ''0'')
            | c # cs \<Rightarrow>
                if c = CHR ''+'' \<or> c = CHR ''-''
                then c # replicate (w - length s) (CHR ''0'') @ cs
                else replicate (w - length s) (CHR ''0'') @ s))"

text \<open>\<^verbatim>\<open>s.isdigit()\<close>: at least one character, and all of them digits.\<close>

definition isdigit :: "string \<Rightarrow> bool" where
  "isdigit s = (s \<noteq> [] \<and> list_all is_digit s)"

definition lower_char :: "char \<Rightarrow> char" where
  "lower_char c =
     (case map_of (zip ''ABCDEFGHIJKLMNOPQRSTUVWXYZ'' ''abcdefghijklmnopqrstuvwxyz'') c of
        None \<Rightarrow> c
      | Some d \<Rightarrow> d)"

definition lower :: "string \<Rightarrow> string" where
  "lower s = map lower_char s"

definition startswith :: "string \<Rightarrow> string \<Rightarrow> bool" where
  "startswith s p = (take (length p) s = p)"

text \<open>\<^verbatim>\<open>s[:n]\<close> for a Python integer \<open>n\<close>: a negative \<open>n\<close> counts from the end.\<close>

definition slice_to :: "string \<Rightarrow> int \<Rightarrow> string" where
  "slice_to s n = (if 0 \<le> n then take (nat n) s else take (length s - nat (- n)) s)"

text \<open>
  \<^verbatim>\<open>s.split(c)\<close> with an explicit one-character separator: every occurrence of the
  separator ends a field, so neighbouring separators give empty fields and the empty
  string gives one empty field.
\<close>

fun split_on :: "char \<Rightarrow> string \<Rightarrow> string list" where
  "split_on c [] = [[]]"
| "split_on c (x # xs) =
     (if x = c then [] # split_on c xs
      else (case split_on c xs of
              [] \<Rightarrow> [[x]]
            | w # ws \<Rightarrow> (x # w) # ws))"

text \<open>\<^verbatim>\<open>sep.join(ws)\<close>.\<close>

fun join :: "string \<Rightarrow> string list \<Rightarrow> string" where
  "join sep [] = []"
| "join sep [w] = w"
| "join sep (w # v # ws) = w @ sep @ join sep (v # ws)"

text \<open>
  \<^verbatim>\<open>re.findall(r"\d+", s)\<close>: the maximal runs of digits of \<open>s\<close>, from left to right.
  The first argument holds the run being read, in reverse.
\<close>

fun digit_runs_from :: "string \<Rightarrow> string \<Rightarrow> string list" where
  "digit_runs_from cur [] = (if cur = [] then [] else [rev cur])"
| "digit_runs_from cur (c # cs) =
     (if is_digit c then digit_runs_from (c # cur) cs
      else if cur = [] then digit_runs_from [] cs
      else rev cur # digit_runs_from [] cs)"

definition findall_digits :: "string \<Rightarrow> string list" where
  "findall_digits s = digit_runs_from [] s"

section \<open>The invoice key resolver\<close>

text \<open>
  \<^verbatim>\<open>extract_key(invoice_num, store_names, n=-6)\<close> of \<^verbatim>\<open>app/library/utils.py\<close>.
  The identifier is \<open>None\<close> for Python's \<^verbatim>\<open>None\<close>; the directory is a dictionary from
  strings to strings, and \<^verbatim>\<open>k in store_names\<close> is \<open>store_names k \<noteq> None\<close>.
\<close>

type_synonym directory = "string \<rightharpoonup> string"

definition has_key :: "directory \<Rightarrow> string \<Rightarrow> bool" where
  "has_key d k = (d k \<noteq> None)"

definition extract_key :: "string option \<Rightarrow> directory \<Rightarrow> int \<Rightarrow> string" where
  "extract_key invoice_num store_names n =
     (let z = ''0000'' in
      case invoice_num of
        None \<Rightarrow> z
      | Some invoice \<Rightarrow>
          if invoice = [] then z
          else
            (let res_str = slice_to invoice n;
                 digits = findall_digits res_str
             in case digits of
                  [] \<Rightarrow> z
                | d0 # _ \<Rightarrow>
                    (let res = zfill 4 (lstrip_chr (CHR ''0'') d0) in
                     if \<not> has_key store_names res then
                       (let lres = lstrip_chr (CHR ''0'') res in
                        if has_key store_names lres then lres
                        else
                          (let rres = zfill 4 (rstrip_chr (CHR ''0'') res) in
                           if has_key store_names rres then rres else z))
                     else res)))"

section \<open>The store directory normalizer\<close>

text \<open>
  A cell of a pandas frame: a string, an integer, a float or the missing value NaN.
  A frame is the list of its columns, so \<^verbatim>\<open>len(df.columns)\<close> is its length and
  \<^verbatim>\<open>df.iloc[:, k]\<close> its \<open>k\<close>-th element.
\<close>

datatype cell = CStr string | CInt int | CFloat rat | CNaN

type_synonym dataframe = "cell list list"

datatype py_error =
  IndexError | KeyError | ValueError | AttributeError | TypeError | ReadError

fun str_nat :: "nat \<Rightarrow> string" where
  "str_nat n =
     (if n < 10 then [''0123456789'' ! n]
      else str_nat (n div 10) @ [''0123456789'' ! (n mod 10)])"

declare str_nat.simps [simp del]

definition str_int :: "int \<Rightarrow> string" where
  "str_int i = (if i < 0 then CHR ''-'' # str_nat (nat (- i)) else str_nat (nat i))"

text \<open>
  \<^verbatim>\<open>str(x)\<close> of a cell.  How Python prints a float is not modelled: the printing of
  floats is the parameter \<open>float_repr\<close>, and every result below holds for each choice
  of it.
\<close>

definition py_str :: "(rat \<Rightarrow> string) \<Rightarrow> cell \<Rightarrow> string" where
  "py_str float_repr x =
     (case x of
        CStr s \<Rightarrow> s
      | CInt i \<Rightarrow> str_int i
      | CFloat q \<Rightarrow> float_repr q
      | CNaN \<Rightarrow> ''nan'')"

text \<open>The inner function \<^verbatim>\<open>key_formatter\<close> of \<^verbatim>\<open>get_store_names\<close>.\<close>

definition key_formatter :: "(rat \<Rightarrow> string) \<Rightarrow> cell \<Rightarrow> string" where
  "key_formatter float_repr x =
     (let s = strip (py_str float_repr x) in
      if s = [] \<or> lower s = ''nan'' then ''-1''
      else
        (let s' = (if startswith s ''#'' then lstrip_chr (CHR ''#'') s else s) in
         if isdigit s' then zfill 4 s' else ''-1''))"

text \<open>The loop over \<^verbatim>\<open>zip(long_col, short_col)\<close>, filling the dictionary.\<close>

fun fill_store_names ::
  "(rat \<Rightarrow> string) \<Rightarrow> (cell \<times> cell) list \<Rightarrow> directory \<Rightarrow> directory" where
  "fill_store_names float_repr [] store_names = store_names"
| "fill_store_names float_repr ((x, y) # rest) store_names =
     (let formatted_key = key_formatter float_repr y in
      if formatted_key \<noteq> ''-1''
      then fill_store_names float_repr rest
             (store_names(formatted_key \<mapsto> strip (py_str float_repr x)))
      else fill_store_names float_repr rest store_names)"

definition fallback_directory :: directory where
  "fallback_directory = [''1997'' \<mapsto> ''C991997'', ''0000'' \<mapsto> ''Unknown'']"

text \<open>The loop over \<^verbatim>\<open>missed.items()\<close>.\<close>

definition add_missed :: "directory \<Rightarrow> directory" where
  "add_missed store_names = store_names(''1997'' \<mapsto> ''C991997'', ''0000'' \<mapsto> ''Unknown'')"

text \<open>
  The columns the loop reads: the long name in column 0, the short code in column 2 when
  there are three columns or more, in column 1 when there are two; \<open>None\<close> with fewer.
\<close>

definition select_columns :: "dataframe \<Rightarrow> (cell list \<times> cell list) option" where
  "select_columns df =
     (if 3 \<le> length df then Some (df ! 0, df ! 2)
      else if 2 \<le> length df then Some (df ! 0, df ! 1)
      else None)"

text \<open>
  The frame that \<^verbatim>\<open>get_store_names(csv_path, df)\<close> works on.  Reading the file at
  \<^verbatim>\<open>csv_path\<close> is outside the model: \<open>csv_read\<close> is \<open>None\<close> when no path is given, and
  otherwise the outcome of \<^verbatim>\<open>pd.read_csv\<close>, an exception or a frame.  The file is read
  only when no frame is passed.
\<close>

definition load_df ::
  "(py_error + dataframe) option \<Rightarrow> dataframe option \<Rightarrow> py_error + dataframe option" where
  "load_df csv_read df =
     (case df of
        Some d \<Rightarrow> Inr (Some d)
      | None \<Rightarrow>
          (case csv_read of
             None \<Rightarrow> Inr None
           | Some (Inl e) \<Rightarrow> Inl e
           | Some (Inr d) \<Rightarrow> Inr (Some d)))"

text \<open>
  \<^verbatim>\<open>get_store_names\<close>: an exception leads to the handler's two-entry directory, and so
  does a frame with fewer than two columns.
\<close>

definition get_store_names ::
  "(rat \<Rightarrow> string) \<Rightarrow> (py_error + dataframe) option \<Rightarrow> dataframe option \<Rightarrow> directory" where
  "get_store_names float_repr csv_read df =
     (case load_df csv_read df of
        Inl e \<Rightarrow> fallback_directory
      | Inr None \<Rightarrow> add_missed Map.empty
      | Inr (Some d) \<Rightarrow>
          (case select_columns d of
             None \<Rightarrow> fallback_directory
           | Some (long_col, short_col) \<Rightarrow>
               add_missed (fill_store_names float_repr (zip long_col short_col) Map.empty)))"

text \<open>The names that the rows of the frame give, in order: the stripped cells of column 0.\<close>

definition long_names ::
  "(rat \<Rightarrow> string) \<Rightarrow> (py_error + dataframe) option \<Rightarrow> dataframe option \<Rightarrow> string list" where
  "long_names float_repr csv_read df =
     (case load_df csv_read df of
        Inr (Some d) \<Rightarrow>
          (case select_columns d of
             None \<Rightarrow> []
           | Some (long_col, short_col) \<Rightarrow> map (\<lambda>x. strip (py_str float_repr x)) long_col)
      | _ \<Rightarrow> [])"


text \<open>\<^verbatim>\<open>d.get(k, default)\<close>.\<close>

definition dict_get :: "directory \<Rightarrow> string \<Rightarrow> string \<Rightarrow> string" where
  "dict_get d k dflt = (case d k of None \<Rightarrow> dflt | Some v \<Rightarrow> v)"

section \<open>The resolver as the specification words it\<close>

text \<open>
  The steps of the specification, written from its words and independently of the
  definitions above: drop the last characters, take the first maximal run of digits,
  strip zeros on the left or on the right, pad with zeros to four characters.
\<close>

definition spec_drop_last :: "nat \<Rightarrow> string \<Rightarrow> string" where
  "spec_drop_last k s = rev (drop k (rev s))"

definition spec_first_digit_run :: "string \<Rightarrow> string" where
  "spec_first_digit_run s = takeWhile is_digit (dropWhile (\<lambda>c. \<not> is_digit c) s)"

definition spec_strip_leading_zeros :: "string \<Rightarrow> string" where
  "spec_strip_leading_zeros s = dropWhile (\<lambda>c. c = CHR ''0'') s"

definition spec_strip_trailing_zeros :: "string \<Rightarrow> string" where
  "spec_strip_trailing_zeros s = rev (dropWhile (\<lambda>c. c = CHR ''0'') (rev s))"

definition spec_pad4 :: "string \<Rightarrow> string" where
  "spec_pad4 s = replicate (4 - length s) (CHR ''0'') @ s"

definition spec_candidate :: "string \<Rightarrow> string" where
  "spec_candidate t = spec_pad4 (spec_strip_leading_zeros (spec_first_digit_run t))"

definition spec_tiers :: "directory \<Rightarrow> string \<Rightarrow> string" where
  "spec_tiers D cand =
     (if cand \<in> dom D then cand
      else if spec_strip_leading_zeros cand \<in> dom D then spec_strip_leading_zeros cand
      else if spec_pad4 (spec_strip_trailing_zeros cand) \<in> dom D
           then spec_pad4 (spec_strip_trailing_zeros cand)
      else ''0000'')"

section \<open>Floats\<close>

text \<open>
  A Python float is modelled as the rational number it stands for, or NaN.  Sums are
  exact: the rounding of binary floating point and the infinities are outside the model.
\<close>

datatype pyfloat = Fin rat | NaN

fun fadd :: "pyfloat \<Rightarrow> pyfloat \<Rightarrow> pyfloat" where
  "fadd (Fin x) (Fin y) = Fin (x + y)"
| "fadd _ _ = NaN"

text \<open>\<^verbatim>\<open>a == b\<close> on floats: NaN is equal to nothing.\<close>

fun py_eq :: "pyfloat \<Rightarrow> pyfloat \<Rightarrow> bool" where
  "py_eq (Fin x) (Fin y) = (x = y)"
| "py_eq _ _ = False"

text \<open>The built-in \<^verbatim>\<open>sum(xs)\<close>: it starts from 0 and adds from left to right.\<close>

definition py_sum :: "pyfloat list \<Rightarrow> pyfloat" where
  "py_sum xs = foldl fadd (Fin 0) xs"



text \<open>\<^verbatim>\<open>round(x, 3)\<close>, as rounding of the exact value to the nearest thousandth, ties to even.\<close>

definition round_half_even :: "rat \<Rightarrow> int" where
  "round_half_even x =
     (let f = \<lfloor>x\<rfloor>; d = x - of_int f in
      if d < 1 / 2 then f
      else if 1 / 2 < d then f + 1
      else if even f then f else f + 1)"

fun round3 :: "pyfloat \<Rightarrow> pyfloat" where
  "round3 (Fin q) = Fin (of_int (round_half_even (q * 1000)) / 1000)"
| "round3 NaN = NaN"

section \<open>The transaction aggregator\<close>

text \<open>
  A row of the frame built from the parsed table rows of one report, and the same row
  with the two columns \<^verbatim>\<open>storeKey\<close> and \<^verbatim>\<open>storeName\<close> that the mapping adds.
\<close>

record txn =
  invoiceNumber :: string
  orderNumber :: string
  description :: string
  date :: string
  amount :: pyfloat









section \<open>The section name of a report\<close>

text \<open>
  \<^verbatim>\<open>re.search(r"(\d{1,2}/\d{1,2})", text)\<close>.  At one position the first group takes two
  digits when it can and falls back to one; the slash and at least one digit must
  follow; the second group takes two digits when it can.  The search returns the match
  at the leftmost position that has one.
\<close>

definition slash_digit :: "string \<Rightarrow> bool" where
  "slash_digit t = (case t of c # d # _ \<Rightarrow> c = CHR ''/'' \<and> is_digit d | _ \<Rightarrow> False)"

definition digits_upto2 :: "string \<Rightarrow> string" where
  "digits_upto2 t = takeWhile is_digit (take 2 t)"

definition match_mm_dd :: "string \<Rightarrow> string option" where
  "match_mm_dd s =
     (if length (digits_upto2 s) = 2 \<and> slash_digit (drop 2 s)
      then Some (take 2 s @ ''/'' @ digits_upto2 (drop 3 s))
      else if 1 \<le> length (digits_upto2 s) \<and> slash_digit (drop 1 s)
      then Some (take 1 s @ ''/'' @ digits_upto2 (drop 2 s))
      else None)"

fun extract_mm_dd :: "string \<Rightarrow> string option" where
  "extract_mm_dd [] = None"
| "extract_mm_dd (c # cs) =
     (case match_mm_dd (c # cs) of
        Some m \<Rightarrow> Some m
      | None \<Rightarrow> extract_mm_dd cs)"

text \<open>\<^verbatim>\<open>re.search(r"#(\d+)", text)\<close>: the digits after the first \<^verbatim>\<open>#\<close> that a digit follows.\<close>

fun extract_payment_id :: "string \<Rightarrow> string option" where
  "extract_payment_id [] = None"
| "extract_payment_id (c # cs) =
     (if c = CHR ''#'' \<and> takeWhile is_digit cs \<noteq> []
      then Some (takeWhile is_digit cs)
      else extract_payment_id cs)"

text \<open>
  The loop over the lines of the first page: it appends to \<^verbatim>\<open>date_check_num\<close> and
  stops at the first line starting with \<^verbatim>\<open>Payment\<close> that holds an identifier.
\<close>

fun scan_header :: "string list \<Rightarrow> string list \<Rightarrow> string list" where
  "scan_header [] date_check_num = date_check_num"
| "scan_header (line # rest) date_check_num =
     (if startswith line ''Date'' then
        (case extract_mm_dd line of
           Some res \<Rightarrow> scan_header rest (date_check_num @ [res])
         | None \<Rightarrow> scan_header rest date_check_num)
      else if startswith line ''Payment'' then
        (case extract_payment_id line of
           Some res \<Rightarrow> date_check_num @ [res]
         | None \<Rightarrow> scan_header rest date_check_num)
      else scan_header rest date_check_num)"

text \<open>
  The name under which a report is stored: the first two entries of
  \<^verbatim>\<open>date_check_num\<close>, and the file's name when indexing the list raises.
\<close>

definition section_name :: "string \<Rightarrow> string \<Rightarrow> string" where
  "section_name filename first_page_text =
     (case scan_header (split_on (CHR 0x0A) first_page_text) [] of
        d0 # d1 # _ \<Rightarrow> d0 @ '' #'' @ d1
      | _ \<Rightarrow> filename)"

text \<open>
  \<^verbatim>\<open>s.split()\<close> without a separator: the maximal runs of characters that are no
  white space.  The first argument holds the run being read, in reverse.
\<close>

fun fields_from :: "string \<Rightarrow> string \<Rightarrow> string list" where
  "fields_from cur [] = (if cur = [] then [] else [rev cur])"
| "fields_from cur (c # cs) =
     (if \<not> is_space c then fields_from (c # cur) cs
      else if cur = [] then fields_from [] cs
      else rev cur # fields_from [] cs)"

definition split_ws :: "string \<Rightarrow> string list" where
  "split_ws s = fields_from [] s"

text \<open>
  \<^verbatim>\<open>rdate, rcheck = filename.split()\<close>, where the sheet of a section is written: the
  unpacking raises \<^verbatim>\<open>ValueError\<close> unless the name has exactly two fields, and no
  handler stands around it.
\<close>

definition unpack_date_check :: "string \<Rightarrow> py_error + string \<times> string" where
  "unpack_date_check filename =
     (case split_ws filename of
        [rdate, rcheck] \<Rightarrow> Inr (rdate, rcheck)
      | _ \<Rightarrow> Inl ValueError)"

text \<open>What the header holds, read line by line as the specification words it.\<close>

definition date_lines :: "string \<Rightarrow> string list" where
  "date_lines first_page_text =
     filter (\<lambda>l. startswith l ''Date'' \<and> extract_mm_dd l \<noteq> None)
       (split_on (CHR 0x0A) first_page_text)"

definition payment_lines :: "string \<Rightarrow> string list" where
  "payment_lines first_page_text =
     filter (\<lambda>l. startswith l ''Payment'' \<and> extract_payment_id l \<noteq> None)
       (split_on (CHR 0x0A) first_page_text)"

section \<open>The sales block parser\<close>

text \<open>
  A row of the sales export under the five column names the code sets.  The frame keeps
  with each row its index label: the labels are the positions in the file as read, and
  \<^verbatim>\<open>dropna(how="all")\<close> removes rows without renumbering the others.
\<close>

record sales_row =
  Customer :: cell
  Cost :: cell
  na :: cell
  cost_of_goods :: cell
  profit_percentage :: cell

text \<open>A row whose other three cells are empty.\<close>

definition two_cells :: "cell \<Rightarrow> cell \<Rightarrow> sales_row" where
  "two_cells c v =
     \<lparr>Customer = c, Cost = v, na = CNaN, cost_of_goods = CNaN, profit_percentage = CNaN\<rparr>"

type_synonym sales_frame = "(int \<times> sales_row) list"

definition read_frame :: "sales_row list \<Rightarrow> sales_frame" where
  "read_frame rows = zip (map int [0..<length rows]) rows"

definition all_na :: "sales_row \<Rightarrow> bool" where
  "all_na r =
     (Customer r = CNaN \<and> Cost r = CNaN \<and> na r = CNaN \<and> cost_of_goods r = CNaN
      \<and> profit_percentage r = CNaN)"

definition dropna_all :: "sales_frame \<Rightarrow> sales_frame" where
  "dropna_all df = filter (\<lambda>(i, r). \<not> all_na r) df"

text \<open>
  \<^verbatim>\<open>float(x)\<close> of a cell.  Parsing a string as a float is the parameter \<open>parse_float\<close>:
  \<open>None\<close> stands for the \<^verbatim>\<open>ValueError\<close> of a string that is no number.
\<close>

definition py_float :: "(string \<Rightarrow> pyfloat option) \<Rightarrow> cell \<Rightarrow> py_error + pyfloat" where
  "py_float parse_float x =
     (case x of
        CStr s \<Rightarrow> (case parse_float s of None \<Rightarrow> Inl ValueError | Some v \<Rightarrow> Inr v)
      | CInt i \<Rightarrow> Inr (Fin (of_int i))
      | CFloat q \<Rightarrow> Inr (Fin q)
      | CNaN \<Rightarrow> Inr NaN)"

text \<open>
  Dictionaries keep their keys in insertion order: they are association lists with
  distinct keys.  \<open>dd_get\<close> is the lookup of a \<^verbatim>\<open>defaultdict(float)\<close>, which adds a
  missing key with the value 0.0, and \<open>dd_add\<close> is \<^verbatim>\<open>d[k] += v\<close> on it.
\<close>

type_synonym fdict = "(string \<times> pyfloat) list"

type_synonym sales_dict = "(string \<times> fdict) list"

definition dd_get :: "fdict \<Rightarrow> string \<Rightarrow> pyfloat \<times> fdict" where
  "dd_get d k = (case map_of d k of Some v \<Rightarrow> (v, d) | None \<Rightarrow> (Fin 0, d @ [(k, Fin 0)]))"

definition dd_add :: "fdict \<Rightarrow> string \<Rightarrow> pyfloat \<Rightarrow> fdict" where
  "dd_add d k v = (case dd_get d k of (old, d') \<Rightarrow> AList.update k (fadd old v) d')"

text \<open>\<^verbatim>\<open>sales[salesperson][key] += v\<close> on the dictionary of dictionaries.\<close>

definition sales_add :: "sales_dict \<Rightarrow> string \<Rightarrow> string \<Rightarrow> pyfloat \<Rightarrow> sales_dict" where
  "sales_add sales salesperson key v =
     (case map_of sales salesperson of
        Some vals \<Rightarrow> AList.update salesperson (dd_add vals key v) sales
      | None \<Rightarrow> sales @ [(salesperson, dd_add [] key v)])"

text \<open>\<^verbatim>\<open>xs[-4:-1]\<close>.\<close>

definition slice_m4_m1 :: "'a list \<Rightarrow> 'a list" where
  "slice_m4_m1 xs = drop (length xs - 4) (take (length xs - 1) xs)"

definition metric_keys :: "string list" where
  "metric_keys = [''period-to-date'', ''year-to-date'', ''prior-year'']"

text \<open>The expected totals, read from the \<^verbatim>\<open>Cost\<close> column of the last rows but one.\<close>

fun fill_expected ::
  "(string \<Rightarrow> pyfloat option) \<Rightarrow> (string \<times> cell) list \<Rightarrow> fdict \<Rightarrow> py_error + fdict" where
  "fill_expected parse_float [] expected = Inr expected"
| "fill_expected parse_float ((k, val) # rest) expected =
     (case py_float parse_float val of
        Inl e \<Rightarrow> Inl e
      | Inr v \<Rightarrow> fill_expected parse_float rest (AList.update k (round3 v) expected))"

definition expected_totals :: "(string \<Rightarrow> pyfloat option) \<Rightarrow> sales_frame \<Rightarrow> py_error + fdict" where
  "expected_totals parse_float df =
     fill_expected parse_float (zip metric_keys (slice_m4_m1 (map (Cost \<circ> snd) df))) []"

text \<open>
  The inner \<^verbatim>\<open>while temp <= j\<close> loop, which reads the rows labelled \<open>temp\<close> to \<open>j\<close> as
  the metrics of one salesperson.  \<^verbatim>\<open>df["Customer"][temp]\<close> looks the label up and
  raises \<^verbatim>\<open>KeyError\<close> when the frame has no such row; \<^verbatim>\<open>.lower()\<close> raises
  \<^verbatim>\<open>AttributeError\<close> on a cell that is no string.
\<close>

function read_block ::
  "(string \<Rightarrow> pyfloat option) \<Rightarrow> sales_frame \<Rightarrow> string \<Rightarrow> int \<Rightarrow> int \<Rightarrow> sales_dict
     \<Rightarrow> py_error + sales_dict" where
  "read_block parse_float df salesperson temp j sales =
     (if temp \<le> j then
        (case map_of df temp of
           None \<Rightarrow> Inl KeyError
         | Some r \<Rightarrow>
             (case Customer r of
                CStr c \<Rightarrow>
                  (let key = join ''-'' (split_on (CHR '' '') (strip (lower c))) in
                   case py_float parse_float (Cost r) of
                     Inl e \<Rightarrow> Inl e
                   | Inr v \<Rightarrow>
                       read_block parse_float df salesperson (temp + 1) j
                         (sales_add sales salesperson (slice_to key (- 1)) v))
              | _ \<Rightarrow> Inl AttributeError))
      else Inr sales)"
  by pat_completeness auto
termination
  by (relation "measure (\<lambda>(parse_float, df, salesperson, temp, j, sales). nat (j + 1 - temp))") auto

declare read_block.simps [simp del]

text \<open>
  The loop over \<^verbatim>\<open>df.iterrows()\<close>.  The state is the dictionary \<^verbatim>\<open>sales\<close> and the
  label \<open>j\<close> of the last row taken by a block, and both are returned;
  \<^verbatim>\<open>customer.split(" ")[1]\<close> raises \<^verbatim>\<open>IndexError\<close> when the cell has no second field.
\<close>

fun scan_rows ::
  "(string \<Rightarrow> pyfloat option) \<Rightarrow> sales_frame \<Rightarrow> (int \<times> sales_row) list \<Rightarrow> sales_dict \<Rightarrow> int
     \<Rightarrow> py_error + sales_dict \<times> int" where
  "scan_rows parse_float df [] sales j = Inr (sales, j)"
| "scan_rows parse_float df ((i, row) # rest) sales j =
     (if i \<le> j then scan_rows parse_float df rest sales j
      else
        (case Customer row of
           CStr customer \<Rightarrow>
             if startswith (lower customer) ''salesperson'' then
               (case split_on (CHR '' '') customer of
                  _ # salesperson # _ \<Rightarrow>
                    (case read_block parse_float df salesperson (i + 1) (i + 3) sales of
                       Inl e \<Rightarrow> Inl e
                     | Inr sales' \<Rightarrow> scan_rows parse_float df rest sales' (i + 3))
                | _ \<Rightarrow> Inl IndexError)
             else scan_rows parse_float df rest sales j
         | _ \<Rightarrow> scan_rows parse_float df rest sales j))"

text \<open>Lines 38 to 64: the frame, the expected totals and the parsed blocks.\<close>

definition parse_sales ::
  "(string \<Rightarrow> pyfloat option) \<Rightarrow> sales_row list \<Rightarrow> py_error + (fdict \<times> sales_dict)" where
  "parse_sales parse_float rows =
     (let df = dropna_all (read_frame rows) in
      case expected_totals parse_float df of
        Inl e \<Rightarrow> Inl e
      | Inr expected \<Rightarrow>
          (case scan_rows parse_float df df [] (- 1) of
             Inl e \<Rightarrow> Inl e
           | Inr (sales, j) \<Rightarrow> Inr (expected, sales)))"

text \<open>
  The loop over \<^verbatim>\<open>sales.items()\<close>: a salesperson whose values sum to zero is noted in
  \<^verbatim>\<open>popped\<close>; the others add their three metrics to \<^verbatim>\<open>actual\<close>, and reading a metric
  that a block lacks adds it to the block with the value 0.0.
\<close>

definition is_empty_block :: "fdict \<Rightarrow> bool" where
  "is_empty_block vals = py_eq (py_sum (map snd vals)) (Fin 0)"

definition add_metric :: "string \<Rightarrow> fdict \<times> fdict \<Rightarrow> fdict \<times> fdict" where
  "add_metric k av =
     (case av of (actual, vals) \<Rightarrow>
        (case dd_get actual k of (a, actual') \<Rightarrow>
           (case dd_get vals k of (v, vals') \<Rightarrow>
              (AList.update k (fadd a v) actual', vals'))))"

fun aggregate ::
  "sales_dict \<Rightarrow> fdict \<Rightarrow> string list \<Rightarrow> sales_dict \<times> fdict \<times> string list" where
  "aggregate [] actual popped = ([], actual, popped)"
| "aggregate ((salesperson, vals) # rest) actual popped =
     (if is_empty_block vals then
        (case aggregate rest actual (popped @ [salesperson]) of
           (rest', actual', popped') \<Rightarrow> ((salesperson, vals) # rest', actual', popped'))
      else
        (case add_metric ''prior-year''
                (add_metric ''year-to-date'' (add_metric ''period-to-date'' (actual, vals))) of
           (actual1, vals1) \<Rightarrow>
             (case aggregate rest actual1 popped of
                (rest', actual', popped') \<Rightarrow> ((salesperson, vals1) # rest', actual', popped'))))"

text \<open>\<^verbatim>\<open>for k in popped: sales.pop(k)\<close>; \<^verbatim>\<open>pop\<close> raises \<^verbatim>\<open>KeyError\<close> on a missing key.\<close>

fun pop_all :: "string list \<Rightarrow> sales_dict \<Rightarrow> py_error + sales_dict" where
  "pop_all [] sales = Inr sales"
| "pop_all (k # ks) sales =
     (if map_of sales k = None then Inl KeyError else pop_all ks (AList.delete k sales))"

text \<open>The validation entries, one for each key of \<^verbatim>\<open>expected\<close>.\<close>

record validation =
  expected_value :: pyfloat
  actual_value :: pyfloat
  matched :: bool

definition validate :: "fdict \<Rightarrow> fdict \<Rightarrow> (string \<times> validation) list" where
  "validate expected actual =
     map (\<lambda>(k, e).
            (k, \<lparr>expected_value = e,
                 actual_value = fst (dd_get actual k),
                 matched = py_eq (fst (dd_get actual k)) e\<rparr>))
         expected"

record sales_report =
  sales_table :: sales_dict
  actual_totals :: fdict
  validation_results :: "(string \<times> validation) list"

text \<open>Lines 66 to 92: the totals, the table without the empty blocks, the validation.\<close>

definition summarize_sales :: "fdict \<Rightarrow> sales_dict \<Rightarrow> py_error + sales_report" where
  "summarize_sales expected sales =
     (case aggregate sales [] [] of
        (sales1, actual, popped) \<Rightarrow>
          (case pop_all popped sales1 of
             Inl e \<Rightarrow> Inl e
           | Inr sales2 \<Rightarrow>
               (let actual' = map (\<lambda>(k, v). (k, round3 v)) actual in
                Inr \<lparr>sales_table = sales2,
                     actual_totals = actual',
                     validation_results = validate expected actual'\<rparr>)))"

text \<open>
  \<^verbatim>\<open>process_sales_analysis\<close> from the frame on; no handler stands between a raise in
  these steps and the caller, so an error is the result of the request.
\<close>

definition process_sales_analysis ::
  "(string \<Rightarrow> pyfloat option) \<Rightarrow> sales_row list \<Rightarrow> py_error + sales_report" where
  "process_sales_analysis parse_float rows =
     (case parse_sales parse_float rows of
        Inl e \<Rightarrow> Inl e
      | Inr (expected, sales) \<Rightarrow> summarize_sales expected sales)"

section \<open>Properties\<close>

subsection \<open>The invoice key resolver\<close>

lemma runs_cur: "cur \<noteq> [] \<Longrightarrow> \<exists>rs. digit_runs_from cur s = (rev cur @ takeWhile is_digit s) # rs"
proof (induction s arbitrary: cur)
  case Nil then show ?case by simp
next
  case (Cons c cs)
  show ?case
  proof (cases "is_digit c")
    case True
    from Cons.IH[of "c # cur"] obtain rs where "digit_runs_from (c # cur) cs = (rev (c # cur) @ takeWhile is_digit cs) # rs" by auto
    with True show ?thesis by simp
  next
    case False
    with Cons.prems show ?thesis by simp
  qed
qed

lemma runs_nil: "list_ex is_digit s \<Longrightarrow> \<exists>rs. digit_runs_from [] s = spec_first_digit_run s # rs"
proof (induction s)
  case Nil then show ?case by simp
next
  case (Cons c cs)
  show ?case
  proof (cases "is_digit c")
    case True
    from runs_cur[of "[c]" cs] obtain rs where "digit_runs_from [c] cs = ([c] @ takeWhile is_digit cs) # rs" by auto
    with True show ?thesis by (simp add: spec_first_digit_run_def)
  next
    case False
    with Cons show ?thesis by (simp add: spec_first_digit_run_def)
  qed
qed

lemma first_run_digits: "list_all is_digit (spec_first_digit_run s)"
  unfolding spec_first_digit_run_def list_all_iff by (auto dest: set_takeWhileD)

lemma digit_not_sign: "is_digit c \<Longrightarrow> c \<noteq> CHR ''+'' \<and> c \<noteq> CHR ''-''"
  by (auto simp: is_digit_def)

lemma zfill_digits: "list_all is_digit s \<Longrightarrow> zfill 4 s = spec_pad4 s"
  by (cases s) (auto simp: zfill_def spec_pad4_def dest: digit_not_sign)

lemma lstrip_digits: "list_all is_digit s \<Longrightarrow> list_all is_digit (lstrip_chr c s)"
  unfolding lstrip_chr_def lstrip_with_def list_all_iff by (auto dest: set_dropWhileD)

lemma rstrip_digits: "list_all is_digit s \<Longrightarrow> list_all is_digit (rstrip_chr c s)"
  unfolding rstrip_chr_def rstrip_with_def list_all_iff by (auto dest: set_dropWhileD)

lemma is_digit_zero: "is_digit (CHR ''0'')"
  by (simp add: is_digit_def)

lemma pad4_digits: "list_all is_digit s \<Longrightarrow> list_all is_digit (spec_pad4 s)"
  by (auto simp: spec_pad4_def list_all_iff is_digit_zero)

lemma extract_key_spec:
  assumes "s \<noteq> []" "list_ex is_digit (slice_to s n)"
  shows "extract_key (Some s) D n = spec_tiers D (spec_candidate (slice_to s n))"
proof -
  from runs_nil[OF assms(2)] obtain rs where
    r: "findall_digits (slice_to s n) = spec_first_digit_run (slice_to s n) # rs"
    by (auto simp: findall_digits_def)
  define d where "d = spec_first_digit_run (slice_to s n)"
  define cand where "cand = spec_candidate (slice_to s n)"
  have d: "list_all is_digit d" unfolding d_def by (rule first_run_digits)
  have l: "lstrip_chr (CHR ''0'') x = spec_strip_leading_zeros x" for x
    by (simp add: lstrip_chr_def lstrip_with_def spec_strip_leading_zeros_def)
  have c: "zfill 4 (lstrip_chr (CHR ''0'') d) = cand"
    unfolding cand_def spec_candidate_def d_def[symmetric] l
    by (rule zfill_digits) (use lstrip_digits[OF d, of "CHR ''0''"] in \<open>simp only: l\<close>)
  have cd: "list_all is_digit cand"
    unfolding cand_def spec_candidate_def d_def[symmetric]
    by (rule pad4_digits) (use lstrip_digits[OF d, of "CHR ''0''"] in \<open>simp only: l\<close>)
  have rs: "rstrip_chr (CHR ''0'') x = spec_strip_trailing_zeros x" for x
    by (simp add: rstrip_chr_def rstrip_with_def spec_strip_trailing_zeros_def)
  have rr: "zfill 4 (rstrip_chr (CHR ''0'') cand) = spec_pad4 (spec_strip_trailing_zeros cand)"
    unfolding rs[symmetric] by (rule zfill_digits) (rule rstrip_digits[OF cd])
  have "extract_key (Some s) D n =
     (if \<not> has_key D cand then
        if has_key D (lstrip_chr (CHR ''0'') cand) then lstrip_chr (CHR ''0'') cand
        else if has_key D (zfill 4 (rstrip_chr (CHR ''0'') cand)) then zfill 4 (rstrip_chr (CHR ''0'') cand)
        else ''0000''
      else cand)"
    unfolding extract_key_def Let_def using assms(1) r c by (simp add: d_def)
  also have "\<dots> = spec_tiers D cand"
    unfolding rr l by (simp add: spec_tiers_def has_key_def dom_def)
  finally show ?thesis by (simp add: cand_def)
qed

lemma drop_last_take: "spec_drop_last k s = take (length s - k) s"
  unfolding spec_drop_last_def by (simp only: rev_drop length_rev rev_rev_ident)

lemma slice_neg: "n < 0 \<Longrightarrow> slice_to s n = spec_drop_last (nat \<bar>n\<bar>) s"
  unfolding drop_last_take by (simp add: slice_to_def)

text \<open>
  Claim C1.  For a non-empty identifier whose truncated form \<^verbatim>\<open>text[:n]\<close> holds a
  digit, the resolver returns the first of these that is a key of the directory: the
  candidate (first run of digits of the truncated form, leading zeros stripped, padded
  with zeros to four characters), the candidate with its leading zeros stripped and not
  padded again, the candidate with its trailing zeros stripped and padded again to four;
  and \<open>0000\<close> when none is a key.  For a negative offset \<open>n\<close> the truncated form is
  the identifier without its last \<open>|n|\<close> characters.
\<close>
theorem extract_key_tier_order:
  assumes "s \<noteq> []" and "list_ex is_digit (slice_to s n)"
  shows "extract_key (Some s) D n = spec_tiers D (spec_candidate (slice_to s n))
         \<and> (n < 0 \<longrightarrow> slice_to s n = spec_drop_last (nat \<bar>n\<bar>) s)"
  using extract_key_spec[OF assms, of D] slice_neg[of n s] by simp

text \<open>The second tier at work: the identifier \<open>7ABCDEF\<close> resolves to the unpadded key \<open>7\<close>.\<close>
theorem extract_key_tier_order_witness:
  "''7ABCDEF'' \<noteq> [] \<and> list_ex is_digit (slice_to ''7ABCDEF'' (- 6)) \<and> (- 6 :: int) < 0
   \<and> slice_to ''7ABCDEF'' (- 6) = spec_drop_last (nat \<bar>- 6\<bar>) ''7ABCDEF''
   \<and> spec_drop_last (nat \<bar>- 6\<bar>) ''7ABCDEF'' = ''7''
   \<and> spec_candidate ''7'' = ''0007''
   \<and> spec_tiers [''7'' \<mapsto> ''Seven''] ''0007'' = ''7''
   \<and> extract_key (Some ''7ABCDEF'') [''7'' \<mapsto> ''Seven''] (- 6) = ''7''"
proof -
  have h1: "''7ABCDEF'' \<noteq> []" by simp
  have sl: "slice_to ''7ABCDEF'' (- 6) = ''7''" by code_simp
  have h2: "list_ex is_digit (slice_to ''7ABCDEF'' (- 6))" by code_simp
  have c: "spec_candidate ''7'' = ''0007''" by code_simp
  have t: "spec_tiers [''7'' \<mapsto> ''Seven''] ''0007'' = ''7''"
    by (simp add: spec_tiers_def spec_strip_leading_zeros_def)
  have n: "(- 6 :: int) < 0" by simp
  note th = extract_key_tier_order[OF h1 h2, of "[''7'' \<mapsto> ''Seven'']"]
  from th n have d: "slice_to ''7ABCDEF'' (- 6) = spec_drop_last (nat \<bar>- 6\<bar>) ''7ABCDEF''"
    by blast
  have dl: "spec_drop_last (nat \<bar>- 6\<bar>) ''7ABCDEF'' = ''7''"
    unfolding d[symmetric] by (rule sl)
  from th have "extract_key (Some ''7ABCDEF'') [''7'' \<mapsto> ''Seven''] (- 6)
      = spec_tiers [''7'' \<mapsto> ''Seven''] (spec_candidate (slice_to ''7ABCDEF'' (- 6)))"
    by (rule conjunct1)
  then have e: "extract_key (Some ''7ABCDEF'') [''7'' \<mapsto> ''Seven''] (- 6) = ''7''"
    unfolding sl c t .
  from h1 h2 n d dl c t e show ?thesis by (intro conjI)
qed

lemma lstrip_candidate:
  "spec_strip_leading_zeros (spec_candidate t) = spec_strip_leading_zeros (spec_first_digit_run t)"
  by (simp add: spec_candidate_def spec_pad4_def spec_strip_leading_zeros_def dropWhile_append)

text \<open>
  Claim C7, as amended.  When the candidate is not a key of the directory, the extracted
  run of digits with its leading zeros stripped is not a key, and the candidate with its
  trailing zeros stripped and padded to four characters is a key, the resolver returns
  that last form.  Without the first condition the resolver returns the candidate: the
  third tier is reached only after the first two have failed.
\<close>
theorem extract_key_tier3:
  assumes "s \<noteq> []" and "list_ex is_digit (slice_to s n)"
    and "spec_candidate (slice_to s n) \<notin> dom D"
    and "spec_strip_leading_zeros (spec_first_digit_run (slice_to s n)) \<notin> dom D"
    and "spec_pad4 (spec_strip_trailing_zeros (spec_candidate (slice_to s n))) \<in> dom D"
  shows "extract_key (Some s) D n = spec_pad4 (spec_strip_trailing_zeros (spec_candidate (slice_to s n)))"
  using extract_key_spec[OF assms(1,2), of D] assms(3,4,5)
  by (simp add: spec_tiers_def lstrip_candidate)

text \<open>
  The claim C7 as it is written fails on the identifier \<open>120ABCDEF\<close> with the keys
  \<open>0120\<close> and \<open>0012\<close>: the run \<open>120\<close> stripped on the left is no key, the form
  stripped on the right and padded, \<open>0012\<close>, is a key, and the resolver returns the
  candidate \<open>0120\<close>, a key itself.
\<close>
theorem extract_key_tier3_counterexample:
  "spec_first_digit_run (slice_to ''120ABCDEF'' (- 6)) = ''120''
   \<and> spec_strip_leading_zeros ''120'' \<notin> dom [''0120'' \<mapsto> ''A'', ''0012'' \<mapsto> ''B'']
   \<and> spec_pad4 (spec_strip_trailing_zeros ''120'') = ''0012''
   \<and> spec_pad4 (spec_strip_trailing_zeros (spec_candidate (slice_to ''120ABCDEF'' (- 6)))) = ''0012''
   \<and> ''0012'' \<in> dom [''0120'' \<mapsto> ''A'', ''0012'' \<mapsto> ''B'']
   \<and> extract_key (Some ''120ABCDEF'') [''0120'' \<mapsto> ''A'', ''0012'' \<mapsto> ''B''] (- 6) = ''0120''
   \<and> ''0120'' \<noteq> ''0012''"
  by (simp add: extract_key_def findall_digits_def slice_to_def is_digit_def zfill_def
      lstrip_chr_def lstrip_with_def rstrip_chr_def rstrip_with_def has_key_def
      spec_candidate_def spec_first_digit_run_def eval_nat_numeral
      spec_strip_leading_zeros_def spec_pad4_def spec_strip_trailing_zeros_def)

text \<open>The third tier at work: \<open>120\<close> resolves to \<open>0012\<close> when only that is a key.\<close>
theorem extract_key_tier3_witness:
  "extract_key (Some ''120ABCDEF'') [''0012'' \<mapsto> ''B''] (- 6) = ''0012''"
  using extract_key_tier3[of "''120ABCDEF''" "- 6" "[''0012'' \<mapsto> ''B'']"]
  by (simp add: slice_to_def is_digit_def
      spec_candidate_def spec_first_digit_run_def eval_nat_numeral
      spec_strip_leading_zeros_def spec_pad4_def spec_strip_trailing_zeros_def)

subsection \<open>The store directory normalizer\<close>

lemma add_missed_sentinels:
  "add_missed d ''0000'' = Some ''Unknown'' \<and> add_missed d ''1997'' = Some ''C991997''"
  by (simp add: add_missed_def)

lemma fallback_sentinels:
  "fallback_directory ''0000'' = Some ''Unknown'' \<and> fallback_directory ''1997'' = Some ''C991997''"
  by (simp add: fallback_directory_def)

lemma sentinels_present:
  "get_store_names fr csv df ''0000'' = Some ''Unknown''
   \<and> get_store_names fr csv df ''1997'' = Some ''C991997''"
  unfolding get_store_names_def
  using add_missed_sentinels fallback_sentinels
  by (simp split: sum.split option.split prod.split)

text \<open>
  Claim C3.  Whatever the input of the normalizer is (any frame, also one whose rows
  give the codes \<open>0000\<close> or \<open>1997\<close>, one with fewer than two columns, a read that
  raises), the directory it returns maps \<open>0000\<close> to \<open>Unknown\<close> and \<open>1997\<close> to
  \<open>C991997\<close>.
\<close>
theorem get_store_names_sentinels:
  "get_store_names float_repr csv_read df ''0000'' = Some ''Unknown''
   \<and> get_store_names float_repr csv_read df ''1997'' = Some ''C991997''"
  by (rule sentinels_present)

text \<open>A table whose rows give the two codes themselves: the fixed names win.\<close>

lemma sentinels_overwrite_rows:
  "get_store_names (\<lambda>q. []) None
     (Some [[CStr ''Mine'', CStr ''Yours''], [CStr ''0000'', CStr ''#1997'']]) ''0000''
     = Some ''Unknown''
   \<and> get_store_names (\<lambda>q. []) None
     (Some [[CStr ''Mine'', CStr ''Yours''], [CStr ''0000'', CStr ''#1997'']]) ''1997''
     = Some ''C991997''
   \<and> fill_store_names (\<lambda>q. [])
       (zip [CStr ''Mine'', CStr ''Yours''] [CStr ''0000'', CStr ''#1997'']) Map.empty ''0000''
     = Some ''Mine''"
  by code_simp













lemma extract_key_cases:
  "extract_key invoice_num D n = ''0000'' \<or> has_key D (extract_key invoice_num D n)"
  by (simp add: extract_key_def Let_def split: option.split list.split)

lemma fill_values:
  "fill_store_names fr zs d k = Some v \<Longrightarrow>
     d k = Some v \<or> v \<in> set (map (\<lambda>x. strip (py_str fr x)) (map fst zs))"
proof (induction zs arbitrary: d)
  case Nil then show ?case by simp
next
  case (Cons z zs)
  obtain x y where z: "z = (x, y)" by (cases z)
  show ?case
  proof (cases "key_formatter fr y = ''-1''")
    case True
    with Cons z show ?thesis by auto
  next
    case False
    with Cons.prems z
    have "fill_store_names fr zs (d(key_formatter fr y \<mapsto> strip (py_str fr x))) k = Some v"
      by (simp add: Let_def)
    from Cons.IH[OF this] z show ?thesis by (auto split: if_splits)
  qed
qed

lemma unknown_entry:
  assumes "get_store_names fr csv df k = Some ''Unknown''"
    and "''Unknown'' \<notin> set (long_names fr csv df)"
  shows "k = ''0000''"
proof (rule ccontr)
  assume k: "k \<noteq> ''0000''"
  have fb: "fallback_directory k \<noteq> Some ''Unknown''"
    using k by (simp add: fallback_directory_def)
  have am: "add_missed d k = Some ''Unknown'' \<Longrightarrow> d k = Some ''Unknown''" for d
    using k by (simp add: add_missed_def split: if_splits)
  show False
  proof (cases "load_df csv df")
    case (Inl e)
    with assms(1) fb show ?thesis by (simp add: get_store_names_def)
  next
    case (Inr od)
    show ?thesis
    proof (cases od)
      case None
      with Inr assms(1) am[of Map.empty] show ?thesis by (simp add: get_store_names_def)
    next
      case (Some d)
      show ?thesis
      proof (cases "select_columns d")
        case None
        with Inr Some assms(1) fb show ?thesis by (simp add: get_store_names_def)
      next
        case (Some lc)
        obtain l c where lc: "lc = (l, c)" by (cases lc)
        from Inr \<open>od = Some d\<close> Some lc assms(1)
        have "add_missed (fill_store_names fr (zip l c) Map.empty) k = Some ''Unknown''"
          by (simp add: get_store_names_def)
        from fill_values[OF am[OF this]]
        have "''Unknown'' \<in> set (map (\<lambda>x. strip (py_str fr x)) (map fst (zip l c)))" by simp
        then have "''Unknown'' \<in> set (map (\<lambda>x. strip (py_str fr x)) l)"
          by (auto dest: set_zip_leftD)
        with Inr \<open>od = Some d\<close> Some lc assms(2) show ?thesis by (simp add: long_names_def)
      qed
    qed
  qed
qed

text \<open>
  Claim C9, as amended.  The resolver returns \<open>0000\<close> or a key of the directory.  For a
  directory built by the normalizer the returned key is always a key of it, so the
  default of the name lookup is never used and the name \<open>Unknown\<close> comes from an entry
  of the directory; when no row of the mapping table is itself named \<open>Unknown\<close>, the
  name is \<open>Unknown\<close> exactly when the key is \<open>0000\<close>.
\<close>
theorem resolved_key_in_directory:
  "(extract_key invoice_num D n = ''0000'' \<or> has_key D (extract_key invoice_num D n))
   \<and> has_key (get_store_names float_repr csv_read df)
        (extract_key invoice_num (get_store_names float_repr csv_read df) n)
   \<and> (dict_get (get_store_names float_repr csv_read df)
          (extract_key invoice_num (get_store_names float_repr csv_read df) n) ''Unknown'' = ''Unknown''
        \<longleftrightarrow> get_store_names float_repr csv_read df
              (extract_key invoice_num (get_store_names float_repr csv_read df) n) = Some ''Unknown'')
   \<and> (''Unknown'' \<notin> set (long_names float_repr csv_read df) \<longrightarrow>
        (dict_get (get_store_names float_repr csv_read df)
           (extract_key invoice_num (get_store_names float_repr csv_read df) n) ''Unknown'' = ''Unknown''
         \<longleftrightarrow> extract_key invoice_num (get_store_names float_repr csv_read df) n = ''0000''))"
proof -
  let ?D = "get_store_names float_repr csv_read df"
  let ?k = "extract_key invoice_num ?D n"
  have z: "?D ''0000'' = Some ''Unknown''" using sentinels_present by simp
  have hk: "has_key ?D ?k"
    using extract_key_cases[of invoice_num ?D n] z by (auto simp: has_key_def)
  then obtain v where v: "?D ?k = Some v" by (auto simp: has_key_def)
  then have g: "dict_get ?D ?k ''Unknown'' = v" by (simp add: dict_get_def)
  have u: "''Unknown'' \<notin> set (long_names float_repr csv_read df) \<Longrightarrow>
       (v = ''Unknown'') = (?k = ''0000'')"
    using unknown_entry[of float_repr csv_read df ?k] v z by auto
  show ?thesis using extract_key_cases[of invoice_num D n] hk g v u by simp
qed

text \<open>
  The claim C9 as it is written fails on a mapping table with the row (\<open>Unknown\<close>,
  \<open>42\<close>): the identifier \<open>42ABCDEF\<close> resolves to the key \<open>0042\<close>, whose name is
  \<open>Unknown\<close>, and the key is not \<open>0000\<close>.
\<close>
theorem resolved_key_in_directory_counterexample:
  "extract_key (Some ''42ABCDEF'')
     (get_store_names (\<lambda>q. []) None (Some [[CStr ''Unknown''], [CStr ''42'']])) (- 6) = ''0042''
   \<and> dict_get (get_store_names (\<lambda>q. []) None (Some [[CStr ''Unknown''], [CStr ''42'']]))
        ''0042'' ''Unknown'' = ''Unknown''
   \<and> ''0042'' \<noteq> ''0000''"
  by code_simp

text \<open>An identifier with no key in the directory: it resolves to \<open>0000\<close> and to \<open>Unknown\<close>.\<close>
theorem resolved_key_in_directory_witness:
  "''Unknown'' \<notin> set (long_names (\<lambda>q. []) None (Some [[CStr ''Downtown Store''], [CStr ''42'']]))
   \<and> extract_key (Some ''9ABCDEF'')
       (get_store_names (\<lambda>q. []) None (Some [[CStr ''Downtown Store''], [CStr ''42'']])) (- 6)
     = ''0000''
   \<and> dict_get (get_store_names (\<lambda>q. []) None (Some [[CStr ''Downtown Store''], [CStr ''42'']]))
       (extract_key (Some ''9ABCDEF'')
          (get_store_names (\<lambda>q. []) None (Some [[CStr ''Downtown Store''], [CStr ''42'']])) (- 6))
       ''Unknown'' = ''Unknown''"
proof -
  have h: "''Unknown'' \<notin> set (long_names (\<lambda>q. []) None (Some [[CStr ''Downtown Store''], [CStr ''42'']]))"
    by code_simp
  have k: "extract_key (Some ''9ABCDEF'')
       (get_store_names (\<lambda>q. []) None (Some [[CStr ''Downtown Store''], [CStr ''42'']])) (- 6)
     = ''0000''" by code_simp
  from resolved_key_in_directory[of "Some ''9ABCDEF''" Map.empty "- 6" "\<lambda>q. []" None
      "Some [[CStr ''Downtown Store''], [CStr ''42'']]"] h k
  show ?thesis by simp
qed

subsection \<open>The transaction aggregator\<close>












subsection \<open>The section name of a report\<close>

text \<open>
  Claim C8, at inputs where the code departs from it.  With two lines starting with
  \<open>Date\<close> and no line starting with \<open>Payment\<close>, the extraction of the payment
  identifier fails and the section is named by the two dates, not by the file.  With the
  same two lines before a payment line, both extractions succeed and the name holds the
  second date in the place of the payment identifier.  With the payment line first, the
  loop stops before the date line and the file's name is used.  One date line before
  the payment line gives the name the claim describes.  Where the sheets are written, a
  name made of a date and an identifier unpacks into its two fields, and a file name of
  one field raises \<open>ValueError\<close>.
\<close>
theorem section_name_failing_inputs:
  "date_lines (''Date: 01/04/2026'' @ [CHR 0x0A] @ ''Date Due: 01/05/2026'')
     = [''Date: 01/04/2026'', ''Date Due: 01/05/2026'']
   \<and> payment_lines (''Date: 01/04/2026'' @ [CHR 0x0A] @ ''Date Due: 01/05/2026'') = []
   \<and> section_name ''report.pdf'' (''Date: 01/04/2026'' @ [CHR 0x0A] @ ''Date Due: 01/05/2026'')
       = ''01/04 #01/05''
   \<and> section_name ''report.pdf''
        (''Date: 01/04/2026'' @ [CHR 0x0A] @ ''Date Due: 01/05/2026'' @ [CHR 0x0A] @ ''Payment #123456'')
       = ''01/04 #01/05''
   \<and> section_name ''report.pdf'' (''Payment #123456'' @ [CHR 0x0A] @ ''Date: 01/04/2026'')
       = ''report.pdf''
   \<and> section_name ''report.pdf'' (''Date: 01/04/2026'' @ [CHR 0x0A] @ ''Payment #123456'')
       = ''01/04 #123456''
   \<and> unpack_date_check ''01/04 #123456'' = Inr (''01/04'', ''#123456'')
   \<and> unpack_date_check ''report.pdf'' = Inl ValueError"
  by code_simp

subsection \<open>The sales block parser\<close>

lemma scan_rows_append:
  "scan_rows fp df (pre @ rest) sales j =
     (case scan_rows fp df pre sales j of
        Inl e \<Rightarrow> Inl e
      | Inr (sales', j') \<Rightarrow> scan_rows fp df rest sales' j')"
proof (induction pre arbitrary: sales j)
  case Nil then show ?case by simp
next
  case (Cons p pre)
  obtain i row where p: "p = (i, row)" by (cases p)
  show ?case unfolding p
    by (simp add: Cons.IH split: cell.split list.split sum.split)
qed

lemma scan_rows_single_token:
  assumes "j < i" and "Customer r = CStr c" and "startswith (lower c) ''salesperson''"
    and "length (split_on (CHR '' '') c) = 1"
  shows "scan_rows fp df ((i, r) # post) sales j = Inl IndexError"
proof -
  from assms(4) obtain w where "split_on (CHR '' '') c = [w]"
    by (cases "split_on (CHR '' '') c") auto
  with assms(1-3) show ?thesis by simp
qed

text \<open>
  Claim C10, as amended.  When the scan reaches a row that no earlier block has taken
  (its label is beyond the last label of the previous block), the steps before it raised
  nothing, and the \<open>Customer\<close> cell of the row is a string that starts with
  \<open>salesperson\<close> in any case and has a single field between spaces, the request
  ends with \<open>IndexError\<close>.
\<close>
theorem single_token_salesperson_raises:
  assumes "expected_totals parse_float (dropna_all (read_frame rows)) = Inr expected"
    and "dropna_all (read_frame rows) = pre @ (i, r) # post"
    and "scan_rows parse_float (dropna_all (read_frame rows)) pre [] (- 1) = Inr (sales, j)"
    and "j < i"
    and "Customer r = CStr c"
    and "startswith (lower c) ''salesperson''"
    and "length (split_on (CHR '' '') c) = 1"
  shows "process_sales_analysis parse_float rows = Inl IndexError"
proof -
  let ?df = "dropna_all (read_frame rows)"
  have "scan_rows parse_float ?df (pre @ (i, r) # post) [] (- 1) = Inl IndexError"
    unfolding scan_rows_append
    using assms(3) scan_rows_single_token[OF assms(4-7)] by simp
  then have "scan_rows parse_float ?df ?df [] (- 1) = Inl IndexError"
    using assms(2) by simp
  then show ?thesis
    using assms(1) by (simp add: process_sales_analysis_def parse_sales_def Let_def)
qed

text \<open>A frame whose first row is the single word \<open>Salesperson\<close>.\<close>
theorem single_token_salesperson_raises_witness:
  "process_sales_analysis (\<lambda>s. None)
     [two_cells (CStr ''Salesperson'') CNaN,
      two_cells (CStr ''Period To Date:'') (CInt 100),
      two_cells (CStr ''Year To Date:'') (CInt 200),
      two_cells (CStr ''Prior Year:'') (CInt 50)] = Inl IndexError"
proof -
  let ?rows = "[two_cells (CStr ''Salesperson'') CNaN,
      two_cells (CStr ''Period To Date:'') (CInt 100),
      two_cells (CStr ''Year To Date:'') (CInt 200),
      two_cells (CStr ''Prior Year:'') (CInt 50)]"
  have e: "expected_totals (\<lambda>s. None) (dropna_all (read_frame ?rows))
      = Inr [(''period-to-date'', NaN), (''year-to-date'', Fin 100), (''prior-year'', Fin 200)]"
    by code_simp
  have d: "dropna_all (read_frame ?rows) = [] @ (0, two_cells (CStr ''Salesperson'') CNaN) #
      [(1, two_cells (CStr ''Period To Date:'') (CInt 100)),
       (2, two_cells (CStr ''Year To Date:'') (CInt 200)),
       (3, two_cells (CStr ''Prior Year:'') (CInt 50))]"
    by code_simp
  have s: "scan_rows (\<lambda>s. None) (dropna_all (read_frame ?rows)) [] [] (- 1) = Inr ([], - 1)"
    by simp
  have c: "Customer (two_cells (CStr ''Salesperson'') CNaN) = CStr ''Salesperson''"
    by (simp add: two_cells_def)
  have p: "startswith (lower ''Salesperson'') ''salesperson''" by code_simp
  have l: "length (split_on (CHR '' '') ''Salesperson'') = 1" by code_simp
  show ?thesis
    by (rule single_token_salesperson_raises[OF e d s _ c p l]) simp
qed

text \<open>
  The claim C10 as it is written fails when the row stands among the three rows after
  another salesperson row: it is read as a metric row, under the key \<open>salesperso\<close>,
  and the request returns its report.
\<close>
theorem single_token_salesperson_raises_counterexample:
  "Customer (two_cells (CStr ''Salesperson'') (CInt 100)) = CStr ''Salesperson''
   \<and> startswith (lower ''Salesperson'') ''salesperson''
   \<and> split_on (CHR '' '') ''Salesperson'' = [''Salesperson'']
   \<and> process_sales_analysis (\<lambda>s. None)
       [two_cells (CStr ''Salesperson John'') CNaN,
        two_cells (CStr ''Salesperson'') (CInt 100),
        two_cells (CStr ''Year To Date:'') (CInt 200),
        two_cells (CStr ''Prior Year:'') (CInt 50)]
     = Inr \<lparr>sales_table =
              [(''John'',
                [(''salesperso'', Fin 100), (''year-to-date'', Fin 200),
                 (''prior-year'', Fin 50), (''period-to-date'', Fin 0)])],
            actual_totals =
              [(''period-to-date'', Fin 0), (''year-to-date'', Fin 200), (''prior-year'', Fin 50)],
            validation_results =
              [(''period-to-date'',
                \<lparr>expected_value = NaN, actual_value = Fin 0, matched = False\<rparr>),
               (''year-to-date'',
                \<lparr>expected_value = Fin 100, actual_value = Fin 200, matched = False\<rparr>),
               (''prior-year'',
                \<lparr>expected_value = Fin 200, actual_value = Fin 50, matched = False\<rparr>)]\<rparr>"
  by code_simp

text \<open>
  Claim C6, as amended.  A row \<open>Salesperson John\<close> followed by the rows
  \<open>Period To Date\<close>, \<open>Year To Date\<close> and \<open>Prior Year\<close> with the costs 100, 200
  and 50 gives John the block with the keys \<open>period-to-dat\<close>, \<open>year-to-dat\<close> and
  \<open>prior-yea\<close> (each key is the cell in lower case, joined by hyphens, without its
  last character); the block is not empty and John stays in the table.  The keys
  \<open>period-to-date\<close>, \<open>year-to-date\<close> and \<open>prior-year\<close> arise when each cell has
  one more character at its end, as in \<open>Period To Date:\<close>.
\<close>
theorem sales_block_scenario:
  "parse_sales (\<lambda>s. None)
     [two_cells (CStr ''Salesperson John'') CNaN,
      two_cells (CStr ''Period To Date'') (CInt 100),
      two_cells (CStr ''Year To Date'') (CInt 200),
      two_cells (CStr ''Prior Year'') (CInt 50)]
   = Inr ([(''period-to-date'', NaN), (''year-to-date'', Fin 100), (''prior-year'', Fin 200)],
          [(''John'',
            [(''period-to-dat'', Fin 100), (''year-to-dat'', Fin 200), (''prior-yea'', Fin 50)])])
   \<and> \<not> is_empty_block
         [(''period-to-dat'', Fin 100), (''year-to-dat'', Fin 200), (''prior-yea'', Fin 50)]
   \<and> map_sum id (map fst \<circ> sales_table)
       (process_sales_analysis (\<lambda>s. None)
         [two_cells (CStr ''Salesperson John'') CNaN,
          two_cells (CStr ''Period To Date'') (CInt 100),
          two_cells (CStr ''Year To Date'') (CInt 200),
          two_cells (CStr ''Prior Year'') (CInt 50)])
     = Inr [''John'']
   \<and> parse_sales (\<lambda>s. None)
     [two_cells (CStr ''Salesperson John'') CNaN,
      two_cells (CStr ''Period To Date:'') (CInt 100),
      two_cells (CStr ''Year To Date:'') (CInt 200),
      two_cells (CStr ''Prior Year:'') (CInt 50)]
   = Inr ([(''period-to-date'', NaN), (''year-to-date'', Fin 100), (''prior-year'', Fin 200)],
          [(''John'',
            [(''period-to-date'', Fin 100), (''year-to-date'', Fin 200), (''prior-year'', Fin 50)])])
   \<and> map_sum id sales_table
       (process_sales_analysis (\<lambda>s. None)
         [two_cells (CStr ''Salesperson John'') CNaN,
          two_cells (CStr ''Period To Date:'') (CInt 100),
          two_cells (CStr ''Year To Date:'') (CInt 200),
          two_cells (CStr ''Prior Year:'') (CInt 50)])
     = Inr [(''John'',
            [(''period-to-date'', Fin 100), (''year-to-date'', Fin 200), (''prior-year'', Fin 50)])]"
  by code_simp

text \<open>
  The claim C6 as it is written fails on its own scenario: the block of John has no key
  \<open>period-to-date\<close>.
\<close>
theorem sales_block_scenario_counterexample:
  "parse_sales (\<lambda>s. None)
     [two_cells (CStr ''Salesperson John'') CNaN,
      two_cells (CStr ''Period To Date'') (CInt 100),
      two_cells (CStr ''Year To Date'') (CInt 200),
      two_cells (CStr ''Prior Year'') (CInt 50)]
   = Inr ([(''period-to-date'', NaN), (''year-to-date'', Fin 100), (''prior-year'', Fin 200)],
          [(''John'',
            [(''period-to-dat'', Fin 100), (''year-to-dat'', Fin 200), (''prior-yea'', Fin 50)])])
   \<and> [(''period-to-dat'', Fin 100), (''year-to-dat'', Fin 200), (''prior-yea'', Fin 50)]
       \<noteq> [(''period-to-date'', Fin 100), (''year-to-date'', Fin 200), (''prior-year'', Fin 50)]
   \<and> map_of [(''period-to-dat'', Fin 100), (''year-to-dat'', Fin 200), (''prior-yea'', Fin 50)]
        ''period-to-date'' = None"
  by code_simp


















end
